theory Spec2Isabelle
  imports Main
begin

section \<open>Python values used by the converter\<close>

text \<open>
  The layout document is JSON. The embedding is typed: a key of a JSON object is a field
  of a record, a key that may be absent has an \<open>option\<close> type (\<open>None\<close> is the
  absent key, which is also what \<open>dict.get\<close> returns for it), and a present key holds
  a value of the type the builders' annotations give it. A list-valued key that is absent
  is the empty list, which is what every \<open>.get(key, [])\<close> of the source reads for it.
  Strings are lists of code points below 256.
\<close>

datatype error = KeyError string | AttributeError string

text \<open>Truthiness of an optional string: \<open>None\<close> and the empty string are false.\<close>

definition truthy :: "string option \<Rightarrow> bool" where
  "truthy v = (case v of None \<Rightarrow> False | Some s \<Rightarrow> s \<noteq> [])"

text \<open>\<open>d.get(k, default)\<close> for a key of type \<open>'a\<close>.\<close>

definition get :: "'a option \<Rightarrow> 'a \<Rightarrow> 'a" where
  "get v d = (case v of None \<Rightarrow> d | Some x \<Rightarrow> x)"

text \<open>\<open>v or d\<close> on optional strings.\<close>

definition py_or :: "string option \<Rightarrow> string option \<Rightarrow> string option" where
  "py_or v d = (if truthy v then v else d)"

text \<open>\<open>sep.join(xs)\<close>\<close>

fun join :: "string \<Rightarrow> string list \<Rightarrow> string" where
  "join sep [] = []"
| "join sep [x] = x"
| "join sep (x # y # ys) = x @ sep @ join sep (y # ys)"

text \<open>\<open>s.replace(c, r)\<close> for a one-character pattern \<open>c\<close>.\<close>

definition replace :: "char \<Rightarrow> string \<Rightarrow> string \<Rightarrow> string" where
  "replace c r s = concat (map (\<lambda>x. if x = c then r else [x]) s)"

text \<open>\<open>str(n)\<close> of an integer, as an f-string formats it.\<close>

fun str_nat :: "nat \<Rightarrow> string" where
  "str_nat n = (if n < 10 then [''0123456789'' ! n]
                else str_nat (n div 10) @ [''0123456789'' ! (n mod 10)])"

declare str_nat.simps [simp del]

definition str_int :: "int \<Rightarrow> string" where
  "str_int i = (if i < 0 then ''-'' @ str_nat (nat (- i)) else str_nat (nat i))"

text \<open>\<open>str(v)\<close> of an optional string: \<open>None\<close> prints as \<open>None\<close>.\<close>

definition str_opt :: "string option \<Rightarrow> string" where
  "str_opt v = (case v of None \<Rightarrow> ''None'' | Some s \<Rightarrow> s)"

subsection \<open>JSON attribute blobs\<close>

text \<open>
  Python dictionaries keep insertion order, and \<open>json.dumps\<close> writes the keys in that
  order: an object is an association list. \<open>_J\<close> is
  \<open>json.dumps(d, separators=(',', ':'))\<close> with the default \<open>ensure_ascii=True\<close>:
  every character outside the range from space to tilde, the quote and the backslash are
  escaped.
\<close>

datatype json = JStr string | JInt int | JBool bool | JObj "(string \<times> json) list"

type_synonym pydict = "(string \<times> string) list"

definition hex4 :: "nat \<Rightarrow> string" where
  "hex4 n = map (\<lambda>d. ''0123456789abcdef'' ! d)
              [n div 4096 mod 16, n div 256 mod 16, n div 16 mod 16, n mod 16]"

definition escape_ascii :: "char \<Rightarrow> string" where
  \<open>escape_ascii c =
     (if c = CHR 0x22 then [CHR 0x5C, CHR 0x22]
      else if c = CHR 0x5C then [CHR 0x5C, CHR 0x5C]
      else if c = CHR 0x0A then [CHR 0x5C, CHR ''n'']
      else if c = CHR 0x0D then [CHR 0x5C, CHR ''r'']
      else if c = CHR 0x09 then [CHR 0x5C, CHR ''t'']
      else if c = CHR 0x08 then [CHR 0x5C, CHR ''b'']
      else if c = CHR 0x0C then [CHR 0x5C, CHR ''f'']
      else if 32 \<le> (of_char c :: nat) \<and> (of_char c :: nat) \<le> 126 then [c]
      else [CHR 0x5C, CHR ''u''] @ hex4 (of_char c))\<close>

definition dumps_str :: "string \<Rightarrow> string" where
  "dumps_str s = CHR 0x22 # concat (map escape_ascii s) @ [CHR 0x22]"

fun J :: "json \<Rightarrow> string" where
  "J (JStr s) = dumps_str s"
| "J (JInt i) = str_int i"
| "J (JBool b) = (if b then ''true'' else ''false'')"
| "J (JObj kvs) =
     ''{'' @ join '','' (map (\<lambda>kv. dumps_str (fst kv) @ '':'' @ J (snd kv)) kvs) @ ''}''"

text \<open>
  The builders fill \<open>attrs\<close> and \<open>style\<close> by guarded assignments, each key at most once
  and in a fixed order, so a dictionary is the concatenation of its optional entries:
  \<open>entry\<close> is \<open>if v: d[k] = v\<close>, and \<open>sub\<close> is a nested dictionary that exists only
  when one of its entries was set (\<open>d.setdefault(k, {})[..] = ..\<close>, \<open>if style:\<close>).
\<close>

definition entry :: "string \<Rightarrow> string option \<Rightarrow> (string \<times> json) list" where
  "entry k v = (if truthy v then [(k, JStr (the v))] else [])"

definition sub :: "string \<Rightarrow> (string \<times> json) list \<Rightarrow> (string \<times> json) list" where
  "sub k es = (if es = [] then [] else [(k, JObj es)])"

definition dict_json :: "pydict \<Rightarrow> json" where
  "dict_json d = JObj (map (\<lambda>kv. (fst kv, JStr (snd kv))) d)"

text \<open>\<open>d[k] = v\<close> on an insertion-ordered dictionary, and \<open>k in d\<close>, \<open>d.get(k)\<close>.\<close>

fun dict_set :: "pydict \<Rightarrow> string \<Rightarrow> string \<Rightarrow> pydict" where
  "dict_set [] k v = [(k, v)]"
| "dict_set ((k', v') # d) k v = (if k' = k then (k, v) # d else (k', v') # dict_set d k v)"

definition dict_get :: "pydict \<Rightarrow> string \<Rightarrow> string option" where
  "dict_get d k = map_of d k"


section \<open>Style serializer\<close>

definition truthy_dict :: "pydict option \<Rightarrow> bool" where
  "truthy_dict p = (case p of None \<Rightarrow> False | Some d \<Rightarrow> d \<noteq> [])"

definition css_decl :: "string \<Rightarrow> string option \<Rightarrow> string list" where
  "css_decl name v = (if truthy v then [name @ '':'' @ the v] else [])"

definition css_padding :: "pydict option \<Rightarrow> string list" where
  "css_padding padding =
     (if truthy_dict padding
      then concat (map (\<lambda>side. case dict_get (the padding) side of
                                   None \<Rightarrow> []
                                 | Some v \<Rightarrow> [''padding-'' @ side @ '':'' @ v])
                       [''top'', ''right'', ''bottom'', ''left''])
      else [])"

text \<open>The list \<open>parts\<close> of \<open>_build_css\<close>, in the order of its appends.\<close>

definition build_css_parts ::
  "string option \<Rightarrow> string option \<Rightarrow> string option \<Rightarrow> string option \<Rightarrow> string option \<Rightarrow>
   string option \<Rightarrow> pydict option \<Rightarrow> string option \<Rightarrow> string list" where
  "build_css_parts border_color border_width border_radius color background_color
                   min_height padding font_size =
     css_decl ''border-color'' border_color
     @ css_decl ''border-width'' border_width
     @ css_decl ''border-radius'' border_radius
     @ css_decl ''color'' color
     @ css_decl ''background-color'' background_color
     @ css_decl ''min-height'' min_height
     @ css_padding padding
     @ css_decl ''font-size'' font_size"

definition build_css ::
  "string option \<Rightarrow> string option \<Rightarrow> string option \<Rightarrow> string option \<Rightarrow> string option \<Rightarrow>
   string option \<Rightarrow> pydict option \<Rightarrow> string option \<Rightarrow> string" where
  "build_css border_color border_width border_radius color background_color
             min_height padding font_size =
     join '';'' (build_css_parts border_color border_width border_radius color
                   background_color min_height padding font_size)"

section \<open>Atomic block builders\<close>

definition sq :: string where
  "sq = [CHR 0x27]"

definition placeholder_svg :: "string \<Rightarrow> int \<Rightarrow> int \<Rightarrow> string" where
  \<open>placeholder_svg desc w h =
     (let t = take 60 (replace (CHR ''&'') ''and'' (replace (CHR 0x27) [] desc)) in
      ''data:image/svg+xml,%3Csvg xmlns='' @ sq @ ''http://www.w3.org/2000/svg'' @ sq @ '' ''
      @ ''width='' @ sq @ str_int w @ sq @ '' height='' @ sq @ str_int h @ sq
      @ ''%3E%3Crect fill='' @ sq @ ''%23ccc'' @ sq @ '' width='' @ sq @ str_int w @ sq @ '' ''
      @ ''height='' @ sq @ str_int h @ sq @ ''/%3E%3Ctext x='' @ sq @ ''50%25'' @ sq
      @ '' y='' @ sq @ ''50%25'' @ sq @ '' text-anchor='' @ sq @ ''middle'' @ sq @ '' ''
      @ ''fill='' @ sq @ ''%23666'' @ sq @ '' font-size='' @ sq @ ''20'' @ sq
      @ ''%3E'' @ t @ ''%3C/text%3E%3C/svg%3E'')\<close>

definition style_attr :: "string \<Rightarrow> string" where
  \<open>style_attr css = (if css \<noteq> [] then '' style="'' @ css @ ''"'' else [])\<close>

definition attr_str :: "(string \<times> json) list \<Rightarrow> string" where
  "attr_str attrs = (if attrs \<noteq> [] then '' '' @ J (JObj attrs) else [])"

definition text_style :: "string option \<Rightarrow> string option \<Rightarrow> (string \<times> json) list" where
  "text_style color font_size =
     sub ''color'' (entry ''text'' color) @ sub ''typography'' (entry ''fontSize'' font_size)"

definition heading_classes :: "string option \<Rightarrow> string option \<Rightarrow> string list" where
  "heading_classes color align =
     [''wp-block-heading'']
     @ (if truthy color then [''has-text-color''] else [])
     @ (if truthy align then [''has-text-align-'' @ the align] else [])"

definition heading ::
  "string \<Rightarrow> int \<Rightarrow> string option \<Rightarrow> string option \<Rightarrow> string option \<Rightarrow> string" where
  \<open>heading text level color font_size align =
     (let attrs = entry ''textAlign'' align
                  @ (if level \<noteq> 2 then [(''level'', JInt level)] else [])
                  @ sub ''style'' (text_style color font_size);
          tag = ''h'' @ str_int level;
          css = build_css None None None color None None None font_size;
          class_attr = '' class="'' @ join '' '' (heading_classes color align) @ ''"''
      in ''<!-- wp:heading '' @ J (JObj attrs) @ '' -->\<newline>''
         @ ''<'' @ tag @ class_attr @ style_attr css @ ''>'' @ text @ ''</'' @ tag @ ''>\<newline>''
         @ ''<!-- /wp:heading -->'')\<close>

definition paragraph_classes :: "string option \<Rightarrow> string option \<Rightarrow> string list" where
  "paragraph_classes color align =
     (if truthy align then [''has-text-align-'' @ the align] else [])
     @ (if truthy color then [''has-text-color''] else [])"

definition paragraph_block ::
  "string \<Rightarrow> string option \<Rightarrow> string option \<Rightarrow> string option \<Rightarrow> string" where
  \<open>paragraph_block text color font_size align =
     (let attrs = entry ''align'' align @ sub ''style'' (text_style color font_size);
          classes = paragraph_classes color align;
          css = build_css None None None color None None None font_size;
          class_attr = (if classes \<noteq> [] then '' class="'' @ join '' '' classes @ ''"'' else []);
          html_text = replace (CHR 0x0A) ''<br>'' text
      in ''<!-- wp:paragraph'' @ attr_str attrs @ '' -->\<newline>''
         @ ''<p'' @ class_attr @ style_attr css @ ''>'' @ html_text @ ''</p>\<newline>''
         @ ''<!-- /wp:paragraph -->'')\<close>

definition image :: "string option \<Rightarrow> string \<Rightarrow> int \<Rightarrow> int \<Rightarrow> string" where
  \<open>image url alt width height =
     (let src = (if truthy url then the url
                 else placeholder_svg (if alt \<noteq> [] then alt else ''Bilde'') width height);
          attrs = [(''sizeSlug'', JStr ''large'')]
      in ''<!-- wp:image '' @ J (JObj attrs) @ '' -->\<newline>''
         @ ''<figure class="wp-block-image size-large">''
         @ ''<img src="'' @ src @ ''" alt="'' @ alt @ ''"/></figure>\<newline>''
         @ ''<!-- /wp:image -->'')\<close>

definition button ::
  "string \<Rightarrow> string \<Rightarrow> string option \<Rightarrow> string option \<Rightarrow> string \<Rightarrow> string option \<Rightarrow> string" where
  \<open>button text url bg_color text_color style_type border_radius =
     (let outline = (style_type = ''outline'');
          outer_classes = [''wp-block-button''] @ (if outline then [''is-style-outline''] else []);
          style =
            (if outline
             then (if truthy bg_color
                   then [(''border'', JObj [(''width'', JStr ''2px''), (''color'', JStr (the bg_color))]),
                         (''color'', JObj [(''text'', JStr (the bg_color))])]
                   else [])
             else sub ''color'' (entry ''background'' bg_color @ entry ''text'' text_color)
                  @ sub ''border'' (entry ''radius'' border_radius));
          link_classes =
            [''wp-block-button__link'']
            @ (if outline
               then (if truthy bg_color then [''has-text-color'', ''has-border-color''] else [])
               else (if truthy bg_color then [''has-background''] else [])
                    @ (if truthy text_color then [''has-text-color''] else []))
            @ [''wp-element-button''];
          css =
            (if outline
             then (if truthy bg_color
                   then build_css bg_color (Some ''2px'') None bg_color None None None None
                   else [])
             else build_css None None
                    (if truthy border_radius then border_radius else None)
                    (if truthy text_color then text_color else None)
                    (if truthy bg_color then bg_color else None) None None None);
          attrs = sub ''style'' style
      in ''<!-- wp:button'' @ attr_str attrs @ '' -->\<newline>''
         @ ''<div class="'' @ join '' '' outer_classes @ ''">''
         @ ''<a class="'' @ join '' '' link_classes @ ''" href="'' @ url @ ''"''
         @ style_attr css @ ''>'' @ text @ ''</a>''
         @ ''</div>\<newline>''
         @ ''<!-- /wp:button -->'')\<close>

definition buttons :: "string list \<Rightarrow> string option \<Rightarrow> string" where
  \<open>buttons inner align =
     (let classes = [''wp-block-buttons''];
          attrs = (if truthy align
                   then [(''layout'', JObj [(''type'', JStr ''flex''),
                                            (''justifyContent'', JStr (the align))])]
                   else []);
          content = join ''\<newline>'' inner
      in ''<!-- wp:buttons'' @ attr_str attrs @ '' -->\<newline>''
         @ ''<div class="'' @ join '' '' classes @ ''">\<newline>'' @ content @ ''\<newline></div>\<newline>''
         @ ''<!-- /wp:buttons -->'')\<close>

definition spacer :: "int \<Rightarrow> string" where
  \<open>spacer height =
     ''<!-- wp:spacer '' @ J (JObj [(''height'', JStr (str_int height @ ''px''))]) @ '' -->\<newline>''
     @ ''<div style="height:'' @ str_int height @ ''px" aria-hidden="true" ''
     @ ''class="wp-block-spacer"></div>\<newline>''
     @ ''<!-- /wp:spacer -->''\<close>

definition separator :: string where
  \<open>separator =
     ''<!-- wp:separator -->\<newline>''
     @ ''<hr class="wp-block-separator has-alpha-channel-opacity"/>\<newline>''
     @ ''<!-- /wp:separator -->''\<close>

text \<open>
  The dictionaries \<open>_gallery\<close> receives are built by the section converters with the
  keys \<open>alt\<close>, \<open>url\<close> and \<open>caption\<close>; \<open>_gallery\<close> reads each with a default.
\<close>

record gallery_image =
  g_url :: "string option"
  g_alt :: "string option"
  g_caption :: "string option"

definition gallery_img_block :: "gallery_image \<Rightarrow> string" where
  \<open>gallery_img_block img =
     (let src = (if truthy (g_url img) then the (g_url img)
                 else placeholder_svg (get (g_alt img) ''Bilde'') 600 400);
          alt = get (g_alt img) [];
          caption = get (g_caption img) [];
          img_attrs = [(''sizeSlug'', JStr ''large'')];
          caption_html = (if caption \<noteq> []
                          then ''<figcaption class="wp-element-caption">'' @ caption
                               @ ''</figcaption>''
                          else [])
      in ''<!-- wp:image '' @ J (JObj img_attrs) @ '' -->\<newline>''
         @ ''<figure class="wp-block-image size-large">''
         @ ''<img src="'' @ src @ ''" alt="'' @ alt @ ''"/>'' @ caption_html @ ''</figure>\<newline>''
         @ ''<!-- /wp:image -->'')\<close>

definition gallery :: "gallery_image list \<Rightarrow> int \<Rightarrow> bool \<Rightarrow> string" where
  \<open>gallery images columns crop =
     (let img_blocks = map gallery_img_block images;
          attrs = [(''columns'', JInt columns), (''linkTo'', JStr ''none'')]
                  @ (if crop then [(''imageCrop'', JBool True)] else []);
          inner = join ''\<newline>\<newline>'' img_blocks
      in ''<!-- wp:gallery '' @ J (JObj attrs) @ '' -->\<newline>''
         @ ''<figure class="wp-block-gallery has-nested-images columns-'' @ str_int columns
         @ '' is-cropped">\<newline>''
         @ inner @ ''\<newline>''
         @ ''</figure>\<newline>''
         @ ''<!-- /wp:gallery -->'')\<close>

definition list_block :: "string list \<Rightarrow> bool \<Rightarrow> string" where
  \<open>list_block items ordered =
     (let tag = (if ordered then ''ol'' else ''ul'');
          li_blocks = map (\<lambda>item. ''<!-- wp:list-item -->\<newline><li>'' @ item
                                    @ ''</li>\<newline><!-- /wp:list-item -->'') items;
          inner = join ''\<newline>'' li_blocks;
          attrs = (if ordered then [(''ordered'', JBool True)] else [])
      in ''<!-- wp:list'' @ attr_str attrs @ '' -->\<newline>''
         @ ''<'' @ tag @ ''>\<newline>'' @ inner @ ''\<newline></'' @ tag @ ''>\<newline>''
         @ ''<!-- /wp:list -->'')\<close>


section \<open>Container blocks\<close>

definition group_classes :: "string option \<Rightarrow> string option \<Rightarrow> string option \<Rightarrow> string list" where
  "group_classes bg_color text_color align =
     [''wp-block-group'']
     @ (if truthy align then [''align'' @ the align] else [])
     @ (if truthy text_color then [''has-text-color''] else [])
     @ (if truthy bg_color then [''has-background''] else [])"

definition group ::
  "string list \<Rightarrow> string option \<Rightarrow> string option \<Rightarrow> pydict option \<Rightarrow> string option \<Rightarrow>
   string option \<Rightarrow> string option \<Rightarrow> string \<Rightarrow> string" where
  \<open>group inner bg_color text_color padding min_height border_radius align layout_type =
     (let style = sub ''color'' (entry ''background'' bg_color @ entry ''text'' text_color)
                  @ sub ''spacing'' (if truthy_dict padding
                                     then [(''padding'', dict_json (the padding))] else [])
                  @ sub ''dimensions'' (entry ''minHeight'' min_height)
                  @ sub ''border'' (entry ''radius'' border_radius);
          attrs = [(''layout'', JObj [(''type'', JStr layout_type)])]
                  @ entry ''align'' align
                  @ sub ''style'' style;
          classes = group_classes bg_color text_color align;
          css = build_css None None border_radius text_color bg_color min_height padding None;
          content = join ''\<newline>'' inner
      in ''<!-- wp:group '' @ J (JObj attrs) @ '' -->\<newline>''
         @ ''<div class="'' @ join '' '' classes @ ''"'' @ style_attr css @ ''>\<newline>''
         @ content @ ''\<newline>''
         @ ''</div>\<newline>''
         @ ''<!-- /wp:group -->'')\<close>

definition columns :: "string list \<Rightarrow> string option \<Rightarrow> string" where
  \<open>columns inner align =
     (let attrs = entry ''align'' align;
          classes = [''wp-block-columns'']
                    @ (if truthy align then [''align'' @ the align] else [])
      in ''<!-- wp:columns '' @ J (JObj attrs) @ '' -->\<newline>''
         @ ''<div class="'' @ join '' '' classes @ ''">\<newline>''
         @ join [] inner @ ''\<newline>''
         @ ''</div>\<newline>''
         @ ''<!-- /wp:columns -->'')\<close>

definition column ::
  "string list \<Rightarrow> string option \<Rightarrow> string option \<Rightarrow> string option \<Rightarrow> pydict option \<Rightarrow>
   string option \<Rightarrow> string option \<Rightarrow> string option \<Rightarrow> string" where
  \<open>column inner width bg_color text_color padding border_radius border_color border_width =
     (let style = sub ''color'' (entry ''background'' bg_color @ entry ''text'' text_color)
                  @ sub ''spacing'' (if truthy_dict padding
                                     then [(''padding'', dict_json (the padding))] else [])
                  @ sub ''border'' (entry ''radius'' border_radius
                                    @ entry ''width'' border_width
                                    @ entry ''color'' border_color);
          attrs = entry ''width'' width @ sub ''style'' style;
          classes = [''wp-block-column'']
                    @ (if truthy border_color \<or> truthy border_width
                       then [''has-border-color''] else [])
                    @ (if truthy text_color then [''has-text-color''] else [])
                    @ (if truthy bg_color then [''has-background''] else []);
          css = build_css border_color border_width border_radius text_color bg_color
                  None padding None;
          content = join ''\<newline>'' inner
      in ''<!-- wp:column '' @ J (JObj attrs) @ '' -->\<newline>''
         @ ''<div class="'' @ join '' '' classes @ ''"'' @ style_attr css @ ''>\<newline>''
         @ content @ ''\<newline>''
         @ ''</div>\<newline>''
         @ ''<!-- /wp:column -->'')\<close>

text \<open>
  \<open>round(dim_ratio / 10) * 10\<close>. For an integer \<open>dim_ratio\<close> the float quotient is
  the double nearest to the exact quotient; a quotient ending in .5 is a double itself, and
  every other quotient is at least 0.1 away from the next half, far more than the rounding
  error of the division. So Python's \<open>round\<close> (ties go to the even integer) sees what
  rounding the exact quotient half to even gives.
\<close>

definition py_round_div10 :: "int \<Rightarrow> int" where
  "py_round_div10 n =
     (let q = n div 10; r = n mod 10
      in if r < 5 then q else if r > 5 then q + 1 else if even q then q else q + 1)"

definition dim_class_val :: "int \<Rightarrow> int" where
  "dim_class_val dim_ratio = py_round_div10 dim_ratio * 10"

definition cover ::
  "string list \<Rightarrow> string option \<Rightarrow> int \<Rightarrow> int \<Rightarrow> string option \<Rightarrow> string option \<Rightarrow> string" where
  \<open>cover inner bg_image_url dim_ratio min_height overlay_color align =
     (let attrs = [(''dimRatio'', JInt dim_ratio), (''minHeight'', JInt min_height),
                   (''isDark'', JBool True)]
                  @ entry ''url'' bg_image_url
                  @ entry ''overlayColor'' overlay_color
                  @ entry ''align'' align;
          content = join ''\<newline>'' inner;
          classes = [''wp-block-cover'']
                    @ (if truthy align then [''align'' @ the align] else [])
                    @ [''is-dark''];
          img_tag = (if truthy bg_image_url
                     then ''<img class="wp-block-cover__image-background" alt="" ''
                          @ ''src="'' @ the bg_image_url @ ''" data-object-fit="cover"/>''
                     else [])
      in ''<!-- wp:cover '' @ J (JObj attrs) @ '' -->\<newline>''
         @ ''<div class="'' @ join '' '' classes @ ''" style="min-height:''
         @ str_int min_height @ ''px">''
         @ img_tag
         @ ''<span aria-hidden="true" class="wp-block-cover__background has-background-dim-''
         @ str_int (dim_class_val dim_ratio) @ '' has-background-dim"></span>''
         @ ''<div class="wp-block-cover__inner-container">\<newline>''
         @ content @ ''\<newline>''
         @ ''</div></div>\<newline>''
         @ ''<!-- /wp:cover -->'')\<close>

section \<open>The layout document\<close>

text \<open>
  A content item. The key \<open>items\<close> holds button objects in a \<open>buttons\<close> item, strings
  in a \<open>list\<close> item and column objects in a \<open>columns\<close> item: the model keeps one typed
  field for each reading. A column object is its \<open>content\<close> list.
\<close>

record button_item =
  b_text :: "string option"
  b_url :: "string option"
  b_bg_color :: "string option"
  b_text_color :: "string option"
  b_style :: "string option"
  b_border_radius :: "string option"

record item_fields =
  i_type :: "string option"
  i_text :: "string option"
  i_level :: "int option"
  i_color :: "string option"
  i_font_size :: "string option"
  i_align :: "string option"
  i_url :: "string option"
  i_alt :: "string option"
  i_width :: "int option"
  i_height :: "int option"
  i_ordered :: "bool option"
  i_items_buttons :: "button_item list"
  i_items_strings :: "string list"

datatype item = Item (flds: item_fields) (items_columns: "item list list")

definition no_fields :: item_fields where
  "no_fields = \<lparr>i_type = None, i_text = None, i_level = None, i_color = None,
                 i_font_size = None, i_align = None, i_url = None, i_alt = None,
                 i_width = None, i_height = None, i_ordered = None,
                 i_items_buttons = [], i_items_strings = []\<rparr>"

text \<open>
  A section. \<open>background\<close> is an object or, in the flat historical form, a string
  (the source tests \<open>isinstance(bg, dict)\<close>). The nested objects \<open>layout\<close>,
  \<open>styling\<close> and an item's \<open>card_style\<close> are read with the default \<open>{}\<close>: an absent
  object is the record whose fields are all absent.
\<close>

record bg_object =
  bg_type :: "string option"
  bg_url :: "string option"
  bg_value :: "string option"
  bg_overlay_opacity :: "int option"

datatype background = BgObject bg_object | BgString string

record card_style =
  cs_background_color :: "string option"
  cs_border_color :: "string option"
  cs_border_width :: "string option"
  cs_text_color :: "string option"
  cs_padding :: "pydict option"
  cs_border_radius :: "string option"

record card =
  c_align :: "string option"
  c_content :: "item list"
  c_card_style :: card_style
  c_background_color :: "string option"
  c_border_color :: "string option"
  c_border_width :: "string option"
  c_text_color :: "string option"
  c_padding :: "pydict option"
  c_border_radius :: "string option"

record section_image =
  img_url :: "string option"
  img_description :: "string option"
  img_caption_title :: "string option"
  img_caption_meta :: "string option"

record section_layout =
  l_columns :: "int option"

record section_styling =
  st_card_border_radius :: "string option"
  st_padding :: "pydict option"

record section_obj =
  s_type :: "string option"
  s_align :: "string option"
  s_background :: "background option"
  s_background_color :: "string option"
  s_content :: "item list"
  s_min_height :: "int option"
  s_items :: "card list"
  s_styling :: section_styling
  s_padding :: "pydict option"
  s_images :: "section_image list"
  s_layout :: section_layout

definition no_section :: section_obj where
  "no_section = \<lparr>s_type = None, s_align = None, s_background = None,
                  s_background_color = None, s_content = [], s_min_height = None,
                  s_items = [], s_styling = \<lparr>st_card_border_radius = None, st_padding = None\<rparr>,
                  s_padding = None, s_images = [], s_layout = \<lparr>l_columns = None\<rparr>\<rparr>"

record layout_data =
  page_title :: "string option"
  sections :: "section_obj list"


section \<open>Content item converter\<close>

text \<open>
  A list comprehension evaluates its elements from left to right and the first exception
  leaves it: \<open>collect\<close> returns the first error of a list of results.
\<close>

fun collect :: "(error + 'a) list \<Rightarrow> error + 'a list" where
  "collect [] = Inr []"
| "collect (Inl e # rs) = Inl e"
| "collect (Inr x # rs) = (case collect rs of Inl e \<Rightarrow> Inl e | Inr xs \<Rightarrow> Inr (x # xs))"

definition convert_button :: "button_item \<Rightarrow> error + string" where
  "convert_button b =
     (case b_text b of
        None \<Rightarrow> Inl (KeyError ''text'')
      | Some text \<Rightarrow>
          Inr (button text (get (b_url b) ''#'') (b_bg_color b) (b_text_color b)
                 (get (b_style b) ''fill'') (b_border_radius b)))"

fun convert_content_item :: "item \<Rightarrow> error + string" where
  "convert_content_item (Item f cols) =
     (let t = i_type f in
      if t = Some ''heading'' then
        (case i_text f of
           None \<Rightarrow> Inl (KeyError ''text'')
         | Some text \<Rightarrow>
             Inr (heading text (get (i_level f) 2) (i_color f) (i_font_size f) (i_align f)))
      else if t = Some ''paragraph'' then
        (case i_text f of
           None \<Rightarrow> Inl (KeyError ''text'')
         | Some text \<Rightarrow> Inr (paragraph_block text (i_color f) (i_font_size f) (i_align f)))
      else if t = Some ''image'' then
        Inr (image (i_url f) (get (i_alt f) []) (get (i_width f) 800) (get (i_height f) 400))
      else if t = Some ''buttons'' then
        (case collect (map convert_button (i_items_buttons f)) of
           Inl e \<Rightarrow> Inl e
         | Inr btns \<Rightarrow> Inr (buttons btns (i_align f)))
      else if t = Some ''list'' then
        Inr (list_block (i_items_strings f) (get (i_ordered f) False))
      else if t = Some ''spacer'' then
        Inr (spacer (get (i_height f) 40))
      else if t = Some ''separator'' then
        Inr separator
      else if t = Some ''columns'' then
        (case collect (map (\<lambda>col_item.
                              case collect (map convert_content_item col_item) of
                                Inl e \<Rightarrow> Inl e
                              | Inr col_inner \<Rightarrow>
                                  Inr (column col_inner None None None None None None None))
                           cols) of
           Inl e \<Rightarrow> Inl e
         | Inr col_blocks \<Rightarrow> Inr (columns col_blocks (Some ''wide'')))
      else Inr (''<!-- unknown content type: '' @ str_opt t @ '' -->''))"

section \<open>Alignment propagation\<close>

definition apply_section_align :: "item \<Rightarrow> string option \<Rightarrow> item" where
  "apply_section_align content_item section_align =
     (if \<not> truthy section_align then content_item
      else if truthy (i_align (flds content_item)) then content_item
      else if i_type (flds content_item)
                \<in> {Some ''heading'', Some ''paragraph'', Some ''buttons''}
      then Item ((flds content_item)\<lparr>i_align := section_align\<rparr>) (items_columns content_item)
      else content_item)"

definition DEFAULT_SECTION_ALIGN :: pydict where
  "DEFAULT_SECTION_ALIGN =
     [(''hero'', ''center''), (''cta'', ''center''), (''image-gallery'', ''center''),
      (''features'', ''center''), (''stats'', ''center''), (''testimonial'', ''center''),
      (''quote'', ''center''), (''logo-strip'', ''center'')]"

definition resolve_section_align :: "section_obj \<Rightarrow> string option" where
  "resolve_section_align section =
     (let explicit = s_align section in
      if truthy explicit then explicit
      else (case s_type section of
              None \<Rightarrow> None
            | Some t \<Rightarrow> dict_get DEFAULT_SECTION_ALIGN t))"

definition convert_content :: "item list \<Rightarrow> string option \<Rightarrow> error + string list" where
  "convert_content content section_align =
     collect (map (\<lambda>c. convert_content_item (apply_section_align c section_align)) content)"


section \<open>Section converters\<close>

definition no_bg :: bg_object where
  "no_bg = \<lparr>bg_type = None, bg_url = None, bg_value = None, bg_overlay_opacity = None\<rparr>"

text \<open>\<open>section.get("background", {})\<close>\<close>

definition background_of :: "section_obj \<Rightarrow> background" where
  "background_of section = get (s_background section) (BgObject no_bg)"

text \<open>\<open>a or b\<close> on optional dictionaries, and \<open>{**pad, "left": .., "right": ..}\<close>.\<close>

definition py_or_dict :: "pydict option \<Rightarrow> pydict option \<Rightarrow> pydict option" where
  "py_or_dict a b = (if truthy_dict a then a else b)"

definition with_side_padding :: "pydict \<Rightarrow> pydict" where
  "with_side_padding pad =
     dict_set (dict_set pad ''left'' (get (dict_get pad ''left'') ''40px''))
              ''right'' (get (dict_get pad ''right'') ''40px'')"

definition convert_hero :: "section_obj \<Rightarrow> error + string" where
  "convert_hero section =
     (let bg = background_of section;
          section_align = py_or (resolve_section_align section) (Some ''center'')
      in case convert_content (s_content section) section_align of
           Inl e \<Rightarrow> Inl e
         | Inr content \<Rightarrow>
             (let min_h = get (s_min_height section) 600 in
              case bg of
                BgString v \<Rightarrow> Inl (AttributeError ''get'')
              | BgObject b \<Rightarrow>
                  if bg_type b = Some ''image''
                  then (let img_url = py_or (bg_url b)
                                        (Some (placeholder_svg ''Hero bakgrunn'' 1920 800))
                        in Inr (cover content img_url (get (bg_overlay_opacity b) 50) min_h
                                  None (Some ''full'')))
                  else (let bg_color = get (bg_value b) ''#1a1a2e''
                        in Inr (group content (Some bg_color) None
                                  (Some [(''top'', ''80px''), (''bottom'', ''80px''),
                                         (''left'', ''40px''), (''right'', ''40px'')])
                                  (Some (str_int min_h @ ''px'')) None (Some ''full'')
                                  ''constrained''))))"

definition convert_card :: "section_obj \<Rightarrow> string option \<Rightarrow> card \<Rightarrow> error + string" where
  "convert_card section section_align item =
     (let item_align = (case c_align item of None \<Rightarrow> section_align | Some a \<Rightarrow> Some a)
      in case convert_content (c_content item) item_align of
           Inl e \<Rightarrow> Inl e
         | Inr inner \<Rightarrow>
             (let cs = c_card_style item;
                  section_styling = s_styling section;
                  item_bg = py_or (cs_background_color cs) (c_background_color item);
                  item_border_color0 = py_or (cs_border_color cs) (c_border_color item);
                  item_border_width0 = py_or (cs_border_width cs) (c_border_width item);
                  subtle = (\<not> truthy item_bg \<and> \<not> truthy item_border_color0);
                  item_border_color = (if subtle then Some ''#e0e0e0'' else item_border_color0);
                  item_border_width = (if subtle then Some ''1px'' else item_border_width0)
              in Inr (column inner None item_bg
                        (py_or (cs_text_color cs) (c_text_color item))
                        (py_or_dict (cs_padding cs)
                           (py_or_dict (c_padding item)
                              (Some [(''top'', ''20px''), (''right'', ''20px''),
                                     (''bottom'', ''20px''), (''left'', ''20px'')])))
                        (py_or (cs_border_radius cs)
                           (py_or (c_border_radius item) (st_card_border_radius section_styling)))
                        item_border_color item_border_width)))"

definition convert_columns_section :: "section_obj \<Rightarrow> error + string" where
  "convert_columns_section section =
     (let items = s_items section;
          section_align = resolve_section_align section
      in case collect (map (convert_card section section_align) items) of
           Inl e \<Rightarrow> Inl e
         | Inr col_blocks \<Rightarrow>
             (case convert_content (s_content section) section_align of
                Inl e \<Rightarrow> Inl e
              | Inr section_content \<Rightarrow>
                  (let cols_html = columns col_blocks (Some ''wide'');
                       bg = s_background_color section;
                       pad = s_padding section
                   in if truthy bg \<or> truthy_dict pad \<or> section_content \<noteq> []
                      then Inr (group (section_content @ [cols_html]) bg None pad None None
                                  (Some ''full'') ''constrained'')
                      else Inr cols_html)))"

definition convert_cta :: "section_obj \<Rightarrow> error + string" where
  "convert_cta section =
     (let bg = background_of section;
          bg_color0 = (case bg of BgObject b \<Rightarrow> bg_value b
                                 | BgString v \<Rightarrow> s_background_color section);
          bg_color = (if \<not> truthy bg_color0
                      then Some (get (s_background_color section) ''#333333'')
                      else bg_color0);
          section_align = py_or (resolve_section_align section) (Some ''center'')
      in case convert_content (s_content section) section_align of
           Inl e \<Rightarrow> Inl e
         | Inr content \<Rightarrow>
             (let styling = s_styling section;
                  pad = the (py_or_dict (st_padding styling)
                               (py_or_dict (s_padding section)
                                  (Some [(''top'', ''80px''), (''bottom'', ''80px'')])));
                  min_h = s_min_height section
              in Inr (group content bg_color None (Some (with_side_padding pad))
                        (case min_h of
                           None \<Rightarrow> None
                         | Some h \<Rightarrow> if h \<noteq> 0 then Some (str_int h @ ''px'') else None)
                        None (Some ''full'') ''constrained'')))"

definition caption_of :: "section_image \<Rightarrow> string" where
  \<open>caption_of img =
     (let caption_parts =
            (if truthy (img_caption_title img)
             then [''<strong>'' @ the (img_caption_title img) @ ''</strong>''] else [])
            @ (if truthy (img_caption_meta img) then [the (img_caption_meta img)] else [])
      in if caption_parts \<noteq> [] then join ''<br>'' caption_parts else [])\<close>

definition convert_image_gallery :: "section_obj \<Rightarrow> error + string" where
  "convert_image_gallery section =
     (let section_align = resolve_section_align section
      in case convert_content (s_content section) section_align of
           Inl e \<Rightarrow> Inl e
         | Inr content_blocks \<Rightarrow>
             (let images = s_images section;
                  layout = s_layout section;
                  num_cols = get (l_columns layout) (min (int (length images)) 3);
                  gallery_images =
                    map (\<lambda>img. \<lparr>g_url = img_url img,
                                  g_alt = Some (get (img_description img) ''Bilde''),
                                  g_caption = Some (caption_of img)\<rparr>) images;
                  gallery_block = gallery gallery_images num_cols True;
                  bg = s_background_color section;
                  pad = s_padding section;
                  all_inner = content_blocks @ [gallery_block]
              in if truthy bg \<or> truthy_dict pad
                 then Inr (group all_inner bg None pad None None (Some ''full'') ''constrained'')
                 else Inr (join ''\<newline>\<newline>'' all_inner)))"

definition convert_logo_strip :: "section_obj \<Rightarrow> error + string" where
  "convert_logo_strip section =
     (let section_align = py_or (resolve_section_align section) (Some ''center'')
      in case convert_content (s_content section) section_align of
           Inl e \<Rightarrow> Inl e
         | Inr content_blocks \<Rightarrow>
             (let images = s_images section;
                  num_logos = (if images \<noteq> [] then int (length images) else 6);
                  gallery_images =
                    map (\<lambda>img. \<lparr>g_url = img_url img,
                                  g_alt = Some (get (img_description img) ''Logo''),
                                  g_caption = Some []\<rparr>) images;
                  gallery_block = gallery gallery_images (min num_logos 8) False;
                  bg = s_background_color section;
                  pad = get (s_padding section) [(''top'', ''40px''), (''bottom'', ''40px'')];
                  all_inner = content_blocks @ [gallery_block]
              in Inr (group all_inner bg None (Some pad) None None (Some ''full'')
                        ''constrained'')))"

subsection \<open>Footer\<close>

text \<open>
  The \<open>for\<close> loop over the content with its two variables \<open>col_groups\<close> and
  \<open>current\<close>, the \<open>if current:\<close> after it, and the \<open>while\<close> loop that pads.
\<close>

fun footer_scan_loop ::
  "item list \<Rightarrow> item list list \<Rightarrow> item list \<Rightarrow> item list list \<times> item list" where
  "footer_scan_loop [] col_groups current = (col_groups, current)"
| "footer_scan_loop (c # cs) col_groups current =
     (if i_type (flds c) = Some ''heading'' \<and> current \<noteq> []
      then footer_scan_loop cs (col_groups @ [current]) [c]
      else footer_scan_loop cs col_groups (current @ [c]))"

definition footer_scan :: "item list \<Rightarrow> item list list" where
  "footer_scan content =
     (case footer_scan_loop content [] [] of
        (col_groups, current) \<Rightarrow> if current \<noteq> [] then col_groups @ [current] else col_groups)"

function footer_pad :: "item list list \<Rightarrow> int \<Rightarrow> item list list" where
  "footer_pad col_groups num_cols =
     (if int (length col_groups) < num_cols
      then footer_pad (col_groups @ [[]]) num_cols
      else col_groups)"
  by pat_completeness auto
termination
  by (relation "measure (\<lambda>(col_groups, num_cols). nat (num_cols - int (length col_groups)))") auto

declare footer_pad.simps [simp del]

definition footer_col_blocks :: "item list list \<Rightarrow> error + string list" where
  "footer_col_blocks col_groups =
     collect (map (\<lambda>grp. case collect (map convert_content_item grp) of
                            Inl e \<Rightarrow> Inl e
                          | Inr inner \<Rightarrow> Inr (column inner None None None None None None None))
                  col_groups)"

definition convert_footer :: "section_obj \<Rightarrow> error + string" where
  "convert_footer section =
     (let bg_obj = background_of section;
          bg = py_or (s_background_color section)
                 (py_or (case bg_obj of BgObject b \<Rightarrow> bg_value b | BgString v \<Rightarrow> None)
                    (Some ''#333333''));
          pad = get (s_padding section) [(''top'', ''60px''), (''bottom'', ''60px'')];
          layout = s_layout section;
          num_cols = get (l_columns layout) 1;
          content = s_content section
      in if num_cols > 1
         then (let col_groups = footer_pad (footer_scan content) num_cols
               in case footer_col_blocks col_groups of
                    Inl e \<Rightarrow> Inl e
                  | Inr col_blocks \<Rightarrow>
                      (let cols = columns col_blocks (Some ''wide'')
                       in Inr (group [cols] bg None (Some (with_side_padding pad)) None None
                                 (Some ''full'') ''constrained'')))
         else (case collect (map convert_content_item content) of
                 Inl e \<Rightarrow> Inl e
               | Inr inner \<Rightarrow>
                   Inr (group inner bg None (Some (with_side_padding pad)) None None
                          (Some ''full'') ''constrained'')))"

definition convert_generic :: "section_obj \<Rightarrow> error + string" where
  "convert_generic section =
     (let section_align = resolve_section_align section
      in case convert_content (s_content section) section_align of
           Inl e \<Rightarrow> Inl e
         | Inr content \<Rightarrow>
             (let bg = s_background_color section;
                  pad = s_padding section
              in if truthy bg \<or> truthy_dict pad \<or> content \<noteq> []
                 then Inr (group content bg None pad None None (Some ''full'') ''constrained'')
                 else Inr []))"

section \<open>Section dispatcher and entry point\<close>

definition convert_section :: "section_obj \<Rightarrow> error + string" where
  "convert_section section =
     (let t = get (s_type section) [] in
      if t = ''hero'' then convert_hero section
      else if t \<in> {''columns'', ''features'', ''stats''} then convert_columns_section section
      else if t = ''cta'' then convert_cta section
      else if t = ''image-gallery'' then convert_image_gallery section
      else if t = ''logo-strip'' then convert_logo_strip section
      else if t = ''footer'' then convert_footer section
      else convert_generic section)"

definition theme_override_css :: string where
  \<open>theme_override_css =
     (let css = ''.site-header { display: none !important; }''
                @ '' .site-footer { display: none !important; }''
                @ '' .entry-hero-container-inner { display: none !important; }''
                @ '' .entry-content-wrap { padding: 0 !important; max-width: 100% !important; }''
                @ '' .wp-block-gallery:not(.is-cropped) .wp-block-image img''
                @ '' { max-height: 60px; width: auto; object-fit: contain; }''
      in ''<!-- wp:html -->\<newline>''
         @ ''<style>'' @ css @ ''</style>\<newline>''
         @ ''<!-- /wp:html -->'')\<close>

text \<open>
  The loop of \<open>convert_layout\<close>: \<open>n\<close> is \<open>len(sections)\<close>, \<open>i\<close> the index that
  \<open>enumerate\<close> gives the section at the head of the remaining list, \<open>blocks\<close> the
  list built so far.
\<close>

fun layout_loop ::
  "nat \<Rightarrow> nat \<Rightarrow> section_obj list \<Rightarrow> string list \<Rightarrow> error + string list" where
  "layout_loop n i [] blocks = Inr blocks"
| "layout_loop n i (section # rest) blocks =
     (case convert_section section of
        Inl e \<Rightarrow> Inl e
      | Inr block \<Rightarrow>
          layout_loop n (i + 1) rest
            (if block \<noteq> []
             then (blocks @ [block]) @ (if int i < int n - 1 then [spacer 30] else [])
             else blocks))"

definition convert_layout_blocks :: "layout_data \<Rightarrow> error + string list" where
  "convert_layout_blocks layout_data =
     layout_loop (length (sections layout_data)) 0 (sections layout_data) [theme_override_css]"

definition convert_layout :: "layout_data \<Rightarrow> error + string" where
  "convert_layout layout_data =
     (case convert_layout_blocks layout_data of
        Inl e \<Rightarrow> Inl e
      | Inr blocks \<Rightarrow> Inr (join ''\<newline>\<newline>'' blocks))"


section \<open>Native-extension dialect: identifiers\<close>

text \<open>
  \<open>_uid\<close> of \<open>kadence_blocks.py\<close> draws six characters with \<open>random.choices\<close>.
  The random source is explicit: \<open>rnd i\<close> is the index of the \<open>i\<close>-th character still
  to be drawn, and a builder returns the source it leaves behind.
\<close>

type_synonym random_source = "nat \<Rightarrow> nat"

definition uid :: "string \<Rightarrow> random_source \<Rightarrow> string \<times> random_source" where
  "uid prefix rnd =
     (''_'' @ prefix
        @ map (\<lambda>i. ''abcdefghijklmnopqrstuvwxyz0123456789'' ! (rnd i mod 36)) [0..<6],
      \<lambda>i. rnd (i + 6))"

text \<open>\<open>unique_id or _uid(prefix)\<close>\<close>

definition uid_or :: "string option \<Rightarrow> string \<Rightarrow> random_source \<Rightarrow> string \<times> random_source" where
  "uid_or unique_id prefix rnd = (if truthy unique_id then (the unique_id, rnd) else uid prefix rnd)"

text \<open>
  \<open>_attrs\<close> of \<open>kadence_blocks.py\<close> is \<open>json.dumps\<close> with \<open>ensure_ascii=False\<close>: only
  the quote, the backslash and the control characters are escaped.
\<close>

definition escape_plain :: "char \<Rightarrow> string" where
  \<open>escape_plain c =
     (if c = CHR 0x22 then [CHR 0x5C, CHR 0x22]
      else if c = CHR 0x5C then [CHR 0x5C, CHR 0x5C]
      else if c = CHR 0x0A then [CHR 0x5C, CHR ''n'']
      else if c = CHR 0x0D then [CHR 0x5C, CHR ''r'']
      else if c = CHR 0x09 then [CHR 0x5C, CHR ''t'']
      else if c = CHR 0x08 then [CHR 0x5C, CHR ''b'']
      else if c = CHR 0x0C then [CHR 0x5C, CHR ''f'']
      else if (of_char c :: nat) < 32 then [CHR 0x5C, CHR ''u''] @ hex4 (of_char c)
      else [c])\<close>

definition dumps_str_plain :: "string \<Rightarrow> string" where
  "dumps_str_plain s = CHR 0x22 # concat (map escape_plain s) @ [CHR 0x22]"

fun J_plain :: "json \<Rightarrow> string" where
  "J_plain (JStr s) = dumps_str_plain s"
| "J_plain (JInt i) = str_int i"
| "J_plain (JBool b) = (if b then ''true'' else ''false'')"
| "J_plain (JObj kvs) =
     ''{'' @ join '','' (map (\<lambda>kv. dumps_str_plain (fst kv) @ '':'' @ J_plain (snd kv)) kvs)
     @ ''}''"

definition kattrs :: "(string \<times> json) list \<Rightarrow> string" where
  "kattrs d = (if d = [] then [] else '' '' @ J_plain (JObj d))"

definition kb_spacer :: "int \<Rightarrow> string option \<Rightarrow> random_source \<Rightarrow> string \<times> random_source" where
  \<open>kb_spacer height unique_id rnd =
     (case uid_or unique_id ''s'' rnd of
        (u, rnd') \<Rightarrow>
          (let attrs = [(''uniqueID'', JStr u), (''spacerHeight'', JInt height)]
           in (''<!-- wp:kadence/spacer'' @ kattrs attrs @ '' /-->'', rnd')))\<close>

text \<open>The dictionaries of \<open>buttons_data\<close>, as \<open>_build_content_item\<close> fills them.\<close>

record kbtn =
  k_text :: "string option"
  k_size :: "string option"
  k_link :: "string option"
  k_color :: "string option"
  k_background :: "string option"
  k_border_radius :: "int option"

definition single_btn :: "kbtn \<Rightarrow> random_source \<Rightarrow> string \<times> random_source" where
  \<open>single_btn btn rnd =
     (case uid ''sb'' rnd of
        (btn_uid, rnd') \<Rightarrow>
          (let btn_attrs =
                 [(''uniqueID'', JStr btn_uid),
                  (''text'', JStr (get (k_text btn) ''Button'')),
                  (''sizePreset'', JStr (get (k_size btn) ''medium''))]
                 @ entry ''link'' (k_link btn)
                 @ entry ''color'' (k_color btn)
                 @ entry ''background'' (k_background btn)
                 @ (case k_border_radius btn of
                      None \<Rightarrow> []
                    | Some r \<Rightarrow> if r \<noteq> 0 then [(''borderRadius'', JInt r)] else [])
           in (''<!-- wp:kadence/singlebtn'' @ kattrs btn_attrs @ '' /-->'', rnd')))\<close>

fun btn_blocks :: "kbtn list \<Rightarrow> random_source \<Rightarrow> string list \<times> random_source" where
  "btn_blocks [] rnd = ([], rnd)"
| "btn_blocks (btn # rest) rnd =
     (case single_btn btn rnd of
        (b, rnd') \<Rightarrow> (case btn_blocks rest rnd' of (bs, rnd'') \<Rightarrow> (b # bs, rnd'')))"

definition adv_btn ::
  "kbtn list \<Rightarrow> string option \<Rightarrow> string \<Rightarrow> random_source \<Rightarrow> string \<times> random_source" where
  \<open>adv_btn buttons_data unique_id align rnd =
     (case uid_or unique_id ''b'' rnd of
        (u, rnd') \<Rightarrow>
          (case btn_blocks buttons_data rnd' of
             (blocks, rnd'') \<Rightarrow>
               (let attrs = [(''uniqueID'', JStr u), (''hAlign'', JStr align)];
                    inner = join ''\<newline>'' blocks
                in (''<!-- wp:kadence/advancedbtn'' @ kattrs attrs @ '' -->\<newline>''
                    @ ''<div class="wp-block-kadence-advancedbtn kb-buttons-wrap kb-btns'' @ u
                    @ '' kt-btn-align-'' @ align @ '' kt-btns-wrap kt-btns'' @ u @ ''">\<newline>''
                    @ inner @ ''\<newline></div>\<newline>''
                    @ ''<!-- /wp:kadence/advancedbtn -->'', rnd''))))\<close>

section \<open>The spec's serializer, and the inputs the theorems below use\<close>

text \<open>
  \<open>serialize_style\<close> follows the words of the specification, not the source: of the
  eleven properties, in the canonical order, each one that is present (non-null) is
  written as \<open>name:value\<close>, and the declarations are joined by semicolons.
\<close>

definition padding_side :: "pydict option \<Rightarrow> string \<Rightarrow> string option" where
  "padding_side padding side = (case padding of None \<Rightarrow> None | Some d \<Rightarrow> dict_get d side)"

definition serialize_style ::
  "string option \<Rightarrow> string option \<Rightarrow> string option \<Rightarrow> string option \<Rightarrow> string option \<Rightarrow>
   string option \<Rightarrow> pydict option \<Rightarrow> string option \<Rightarrow> string" where
  "serialize_style border_color border_width border_radius color background_color
                   min_height padding font_size =
     join '';''
       (concat (map (\<lambda>nv. case snd nv of None \<Rightarrow> [] | Some v \<Rightarrow> [fst nv @ '':'' @ v])
          [(''border-color'', border_color), (''border-width'', border_width),
           (''border-radius'', border_radius), (''color'', color),
           (''background-color'', background_color), (''min-height'', min_height),
           (''padding-top'', padding_side padding ''top''),
           (''padding-right'', padding_side padding ''right''),
           (''padding-bottom'', padding_side padding ''bottom''),
           (''padding-left'', padding_side padding ''left''),
           (''font-size'', font_size)]))"

text \<open>What the source's guards \<open>if v:\<close> take as present: non-null and non-empty.\<close>

definition present :: "string option \<Rightarrow> string option" where
  "present v = (if truthy v then v else None)"

abbreviation is_heading :: "item \<Rightarrow> bool" where
  "is_heading c \<equiv> i_type (flds c) = Some ''heading''"

text \<open>The invariant of the footer's scanning loop.\<close>

definition scan_inv :: "item list list \<Rightarrow> item list \<Rightarrow> bool" where
  "scan_inv G cur \<longleftrightarrow>
     [] \<notin> set G \<and> (cur = [] \<longrightarrow> G = [])
     \<and> (\<forall>g \<in> set (G @ [cur]). \<forall>c \<in> set (tl g). \<not> is_heading c)
     \<and> (\<forall>g \<in> set (tl (G @ [cur])). is_heading (hd g))"

definition text_item :: "string \<Rightarrow> string \<Rightarrow> item" where
  "text_item t s = Item (no_fields\<lparr>i_type := Some t, i_text := Some s\<rparr>) []"

definition empty_column :: string where
  "empty_column = column [] None None None None None None None"


text \<open>Two random sources agree on their first \<open>n\<close> draws.\<close>

definition agree :: "nat \<Rightarrow> random_source \<Rightarrow> random_source \<Rightarrow> bool" where
  "agree n r1 r2 \<longleftrightarrow> (\<forall>i < n. r1 i = r2 i)"

text \<open>A separator between every two neighbours of a list, and none at its end.\<close>

fun intersperse :: "'a \<Rightarrow> 'a list \<Rightarrow> 'a list" where
  "intersperse sep [] = []"
| "intersperse sep [x] = [x]"
| "intersperse sep (x # y # ys) = x # sep # intersperse sep (y # ys)"

section \<open>Evaluation lemmas\<close>

lemma group_nonempty: "group inner bg tc pad mh br al lt \<noteq> []"
  by (simp add: group_def Let_def)

lemmas eval_defs = convert_section_def convert_generic_def no_section_def get_def
  convert_content_def resolve_section_align_def truthy_def truthy_dict_def
  dict_get_def DEFAULT_SECTION_ALIGN_def text_item_def no_fields_def
  apply_section_align_def py_or_def background_of_def no_bg_def

section \<open>The layout compiler\<close>

text \<open>
  C1. The claim: the N non-empty blocks are emitted in order with exactly N-1 spacers
  between them and none after the last. The guard of the source compares the section's
  index with the number of sections of the input, not with the last section that emits:
  for the document \<open>[generic section with one paragraph, generic section without
  content]\<close> the second section converts to the empty string and is skipped, and the
  spacer appended after the first block stays at the end. One emitted unit, one spacer,
  and the spacer is last.
\<close>

theorem trailing_empty_section_leaves_spacer:
  "convert_layout_blocks
     \<lparr>page_title = None,
      sections = [no_section\<lparr>s_type := Some ''generic'',
                              s_content := [text_item ''paragraph'' ''Hi'']\<rparr>,
                  no_section\<lparr>s_type := Some ''generic''\<rparr>]\<rparr>
   = Inr [theme_override_css,
          group [paragraph_block ''Hi'' None None None] None None None None None
            (Some ''full'') ''constrained'',
          spacer 30]"
  by (simp add: convert_layout_blocks_def eval_defs group_nonempty)

section \<open>Missing text\<close>

text \<open>
  C2. The claim: a heading or paragraph item without \<open>text\<close> does not raise and renders
  the empty string. \<open>_convert_content_item\<close> reads \<open>item["text"]\<close>: for the items
  \<open>{"type": "heading"}\<close> and \<open>{"type": "paragraph"}\<close> it raises \<open>KeyError\<close>.
\<close>

theorem missing_text_raises:
  "convert_content_item (Item (no_fields\<lparr>i_type := Some ''heading''\<rparr>) []) = Inl (KeyError ''text'')
   \<and> convert_content_item (Item (no_fields\<lparr>i_type := Some ''paragraph''\<rparr>) [])
       = Inl (KeyError ''text'')"
  by (simp add: no_fields_def)

section \<open>Background encodings\<close>

text \<open>
  C3. The claim: a section that carries only the flat \<open>background_color\<close> gets that
  colour as the background of its block. \<open>_convert_hero\<close> reads the \<open>background\<close>
  object only: the hero section \<open>{"type": "hero", "background_color": "#ff0000"}\<close> is
  emitted with the default \<open>#1a1a2e\<close>. The lemma after it shows the call-to-action
  converter on the same fields, which does use the flat colour.
\<close>

theorem hero_ignores_flat_background_color:
  "convert_section (no_section\<lparr>s_type := Some ''hero'', s_background_color := Some ''#ff0000''\<rparr>)
   = Inr (group [] (Some ''#1a1a2e'') None
            (Some [(''top'', ''80px''), (''bottom'', ''80px''),
                   (''left'', ''40px''), (''right'', ''40px'')])
            (Some ''600px'') None (Some ''full'') ''constrained'')"
  by (simp add: convert_hero_def eval_defs str_int_def str_nat.simps)

lemma cta_uses_flat_background_color:
  "convert_section (no_section\<lparr>s_type := Some ''cta'', s_background_color := Some ''#ff0000''\<rparr>)
   = Inr (group [] (Some ''#ff0000'') None
            (Some [(''top'', ''80px''), (''bottom'', ''80px''),
                   (''left'', ''40px''), (''right'', ''40px'')])
            None None (Some ''full'') ''constrained'')"
  by (simp add: convert_cta_def eval_defs py_or_dict_def with_side_padding_def)


section \<open>The style serializer\<close>

lemma css_decl_present:
  "css_decl n v = (case present v of None \<Rightarrow> [] | Some x \<Rightarrow> [n @ '':'' @ x])"
  by (cases v) (auto simp: css_decl_def present_def truthy_def)

lemma css_padding_sides:
  "css_padding pad =
     concat (map (\<lambda>side. case padding_side pad side of
                             None \<Rightarrow> [] | Some v \<Rightarrow> [''padding-'' @ side @ '':'' @ v])
                 [''top'', ''right'', ''bottom'', ''left''])"
  by (cases pad) (auto simp: css_padding_def padding_side_def truthy_dict_def dict_get_def)

lemma css_decl_no_empty: "[] \<notin> set (css_decl n v)"
  by (simp add: css_decl_def)

lemma css_padding_no_empty: "[] \<notin> set (css_padding pad)"
  by (auto simp: css_padding_sides split: option.splits)

text \<open>
  C4, as stated: every non-null property is emitted. The empty string is non-null, and the
  guard \<open>if border_color:\<close> of the source skips it: \<open>_build_css(border_color="")\<close> is
  the empty string, where the serializer of the specification writes \<open>border-color:\<close>.
\<close>

theorem build_css_counterexample:
  "build_css (Some []) None None None None None None None
   \<noteq> serialize_style (Some []) None None None None None None None"
  by (simp add: build_css_def build_css_parts_def css_decl_def css_padding_def truthy_def
        truthy_dict_def serialize_style_def padding_side_def)

text \<open>
  C4, amended: \<open>_build_css\<close> is the serializer of the specification on the properties
  that are non-null and non-empty (a padding side counts when its key is in the padding
  dictionary): it emits exactly these, each once, in the canonical order, joined by
  semicolons. No declaration is the empty string, and without properties the output is
  empty.
\<close>

theorem build_css_serializes_present:
  "build_css bc bw br c bg mh pad fs
     = serialize_style (present bc) (present bw) (present br) (present c) (present bg)
         (present mh) pad (present fs)
   \<and> [] \<notin> set (build_css_parts bc bw br c bg mh pad fs)
   \<and> build_css None None None None None None None None = []"
proof (intro conjI)
  show "build_css bc bw br c bg mh pad fs
     = serialize_style (present bc) (present bw) (present br) (present c) (present bg)
         (present mh) pad (present fs)"
    unfolding build_css_def build_css_parts_def serialize_style_def
    by (simp add: css_decl_present css_padding_sides cong: option.case_cong)
  show "[] \<notin> set (build_css_parts bc bw br c bg mh pad fs)"
    by (simp add: build_css_parts_def css_decl_no_empty css_padding_no_empty)
  show "build_css None None None None None None None None = []"
    by (simp add: build_css_def build_css_parts_def css_decl_def css_padding_def truthy_def
        truthy_dict_def)
qed

theorem build_css_serializes_present_witness:
  "build_css (Some ''#000'') None (Some []) (Some ''#fff'') None None
     (Some [(''left'', ''2px''), (''top'', ''1px'')]) (Some ''12px'')
   = ''border-color:#000;color:#fff;padding-top:1px;padding-left:2px;font-size:12px''"
  using build_css_serializes_present [of "Some ''#000''" None "Some []" "Some ''#fff''" None None
     "Some [(''left'', ''2px''), (''top'', ''1px'')]" "Some ''12px''"]
  by (simp add: serialize_style_def present_def truthy_def padding_side_def dict_get_def)


section \<open>Background class and background style of a group\<close>

lemma css_decl_take2:
  "p \<in> set (css_decl n v) \<Longrightarrow> 2 \<le> length n \<Longrightarrow> take 2 p = take 2 n"
  by (auto simp: css_decl_def split: if_splits)

lemma css_padding_take2:
  "p \<in> set (css_padding pad) \<Longrightarrow> take 2 p = ''pa''"
  by (auto simp: css_padding_def split: if_splits option.splits)

lemma background_take2:
  assumes "take 17 p = ''background-color:''"
  shows "take 2 p = ''ba''"
proof -
  have "take 2 (take 17 p) = take 2 p" by (simp add: min_def)
  with assms show ?thesis by simp
qed

text \<open>
  C7, as stated: a non-null \<open>bg_color\<close> gives the class and the declaration. The guard of
  \<open>_group\<close> is \<open>if bg_color:\<close>: with the empty string, which is non-null, the class list
  has no \<open>has-background\<close> and the style has no declaration at all.
\<close>

theorem group_background_counterexample:
  "''has-background'' \<notin> set (group_classes (Some []) None None)
   \<and> build_css_parts None None None None (Some []) None None None = []"
  by (simp add: group_classes_def build_css_parts_def css_decl_def css_padding_def truthy_def
        truthy_dict_def)

text \<open>
  C7, amended: the class list of the group's \<open>div\<close> contains \<open>has-background\<close> exactly
  when \<open>bg_color\<close> is non-null and non-empty, and exactly then the declarations of its
  inline style (the list \<open>_build_css\<close> joins, with the arguments \<open>_group\<close> passes)
  contain a \<open>background-color\<close> declaration, which is \<open>background-color:bg_color\<close>. So
  the class and the declaration appear together or not at all.
\<close>

theorem group_background_consistent:
  "(''has-background'' \<in> set (group_classes bg_color text_color align) \<longleftrightarrow> truthy bg_color)
   \<and> ((\<exists>p \<in> set (build_css_parts None None border_radius text_color bg_color min_height
                      padding None). take 17 p = ''background-color:'') \<longleftrightarrow> truthy bg_color)
   \<and> (truthy bg_color \<longrightarrow>
        ''background-color:'' @ the bg_color
          \<in> set (build_css_parts None None border_radius text_color bg_color min_height
                   padding None))"
proof (intro conjI)
  show "''has-background'' \<in> set (group_classes bg_color text_color align) \<longleftrightarrow> truthy bg_color"
    by (auto simp: group_classes_def)
  show "truthy bg_color \<longrightarrow>
        ''background-color:'' @ the bg_color
          \<in> set (build_css_parts None None border_radius text_color bg_color min_height
                   padding None)"
    by (simp add: build_css_parts_def css_decl_def)
  show "(\<exists>p \<in> set (build_css_parts None None border_radius text_color bg_color min_height
                      padding None). take 17 p = ''background-color:'') \<longleftrightarrow> truthy bg_color"
  proof
    assume "\<exists>p \<in> set (build_css_parts None None border_radius text_color bg_color min_height
                      padding None). take 17 p = ''background-color:''"
    then obtain p where p: "p \<in> set (build_css_parts None None border_radius text_color bg_color
                      min_height padding None)" and t: "take 17 p = ''background-color:''"
      by blast
    show "truthy bg_color"
    proof (rule ccontr)
      assume n: "\<not> truthy bg_color"
      from p n consider "p \<in> set (css_decl ''border-radius'' border_radius)"
        | "p \<in> set (css_decl ''color'' text_color)"
        | "p \<in> set (css_decl ''min-height'' min_height)"
        | "p \<in> set (css_padding padding)"
        by (auto simp: build_css_parts_def css_decl_def truthy_def split: if_splits)
      then have "take 2 p \<noteq> ''ba''"
        by cases (auto dest: css_decl_take2 css_padding_take2)
      with background_take2 [OF t] show False by simp
    qed
  next
    assume "truthy bg_color"
    then show "\<exists>p \<in> set (build_css_parts None None border_radius text_color bg_color min_height
                      padding None). take 17 p = ''background-color:''"
      by (auto simp: build_css_parts_def css_decl_def)
  qed
qed

theorem group_background_consistent_witness:
  "''has-background'' \<in> set (group_classes (Some ''#fff'') None (Some ''full''))
   \<and> ''background-color:#fff''
       \<in> set (build_css_parts None None None None (Some ''#fff'') None None None)
   \<and> ''has-background'' \<notin> set (group_classes None None (Some ''full''))"
  using group_background_consistent [of "Some ''#fff''" None "Some ''full''" None None None]
    group_background_consistent [of None None "Some ''full''" None None None]
  by (simp add: truthy_def)


section \<open>The dim class of a cover\<close>

lemma py_round_div10_near: "\<bar>py_round_div10 d * 10 - d\<bar> \<le> 5"
  unfolding py_round_div10_def Let_def by presburger

lemma nearest_ten: "\<bar>(k::int) * 10 - d\<bar> \<le> 5 \<Longrightarrow> \<bar>k * 10 - d\<bar> \<le> \<bar>10 * m - d\<bar>"
  by presburger

text \<open>
  C8. For every integer \<open>dim_ratio\<close> from 0 to 100 the number in the class
  \<open>has-background-dim-N\<close> is a multiple of 10, and no multiple of 10 is nearer to
  \<open>dim_ratio\<close>; 54 gives 50 and 55 gives 60. (A \<open>dim_ratio\<close> ending in 5 is equally
  near to two multiples; the source takes the one with the even quotient.)
\<close>

theorem dim_class_nearest_ten:
  "0 \<le> d \<Longrightarrow> d \<le> 100 \<Longrightarrow>
     dim_class_val d mod 10 = 0
     \<and> (\<forall>m. \<bar>dim_class_val d - d\<bar> \<le> \<bar>10 * m - d\<bar>)
     \<and> dim_class_val 54 = 50 \<and> dim_class_val 55 = 60"
proof (intro conjI allI)
  show "dim_class_val d mod 10 = 0" by (simp add: dim_class_val_def)
  show "\<bar>dim_class_val d - d\<bar> \<le> \<bar>10 * m - d\<bar>" for m
    unfolding dim_class_val_def by (rule nearest_ten [OF py_round_div10_near])
  show "dim_class_val 54 = 50" by (simp add: dim_class_val_def py_round_div10_def)
  show "dim_class_val 55 = 60" by (simp add: dim_class_val_def py_round_div10_def)
qed

theorem dim_class_nearest_ten_witness:
  "(0::int) \<le> 45 \<and> (45::int) \<le> 100 \<and> dim_class_val 45 mod 10 = 0
   \<and> \<bar>dim_class_val 45 - 45\<bar> \<le> \<bar>10 * 5 - 45\<bar> \<and> dim_class_val 45 = 40"
  using dim_class_nearest_ten [of 45]
  by (simp add: dim_class_val_def py_round_div10_def)

text \<open>The cover block for \<open>dim_ratio = 54\<close>, with the class in its output.\<close>

lemma cover_54:
  \<open>cover [] None 54 600 None None =
    ''<!-- wp:cover {"dimRatio":54,"minHeight":600,"isDark":true} -->\<newline><div class="wp-block-cover is-dark" style="min-height:600px"><span aria-hidden="true" class="wp-block-cover__background has-background-dim-50 has-background-dim"></span><div class="wp-block-cover__inner-container">\<newline>\<newline></div></div>\<newline><!-- /wp:cover -->''\<close>
  by (simp add: cover_def dim_class_val_def py_round_div10_def entry_def truthy_def
      str_int_def str_nat.simps dumps_str_def escape_ascii_def)


section \<open>Footer columns\<close>

lemma scan_loop_inv:
  "scan_inv G cur \<Longrightarrow> footer_scan_loop cs G cur = (G', cur') \<Longrightarrow> scan_inv G' cur'"
proof (induction cs arbitrary: G cur)
  case Nil
  then show ?case by simp
next
  case (Cons c cs)
  show ?case
  proof (cases "is_heading c \<and> cur \<noteq> []")
    case True
    have "scan_inv (G @ [cur]) [c]"
      using Cons.prems(1) True unfolding scan_inv_def
      by (cases G) auto
    moreover have "footer_scan_loop cs (G @ [cur]) [c] = (G', cur')"
      using Cons.prems(2) True by simp
    ultimately show ?thesis by (rule Cons.IH)
  next
    case False
    have "scan_inv G (cur @ [c])"
      using Cons.prems(1) False unfolding scan_inv_def
      by (cases G; cases cur) auto
    moreover have "footer_scan_loop cs G (cur @ [c]) = (G', cur')"
      using Cons.prems(2) False by auto
    ultimately show ?thesis by (rule Cons.IH)
  qed
qed

lemma scan_loop_concat:
  "footer_scan_loop cs G cur = (G', cur') \<Longrightarrow> concat G' @ cur' = concat G @ cur @ cs"
  by (induction cs arbitrary: G cur) (auto split: if_splits)

lemma scan_loop_count:
  "footer_scan_loop cs G cur = (G', cur') \<Longrightarrow> cur \<noteq> [] \<Longrightarrow>
   length G' = length G + length (filter is_heading cs) \<and> cur' \<noteq> []"
  by (induction cs arbitrary: G cur) (auto split: if_splits)

text \<open>
  C5. The groups the footer's scan builds before padding, for a footer with more than one
  column: they are a partition of the content in order, no group is empty, a heading
  occurs in a group only as its first item (so every heading met while the current group
  is non-empty starts a new group), and every group but the first starts with a heading
  (so nothing else starts a group, and the first item, heading or not, opens the first
  group without an empty group before it). Hence the number of groups is one more than
  the number of headings after the first item. In particular \<open>[H1, P1, P2, H2, P3]\<close>
  gives \<open>[H1, P1, P2]\<close> and \<open>[H2, P3]\<close>.
\<close>

theorem footer_scan_partition:
  "concat (footer_scan content) = content
   \<and> [] \<notin> set (footer_scan content)
   \<and> (\<forall>g \<in> set (footer_scan content). \<forall>c \<in> set (tl g). \<not> is_heading c)
   \<and> (\<forall>g \<in> set (tl (footer_scan content)). is_heading (hd g))
   \<and> length (footer_scan content)
       = (if content = [] then 0 else 1 + length (filter is_heading (tl content)))
   \<and> (\<not> is_heading p1 \<and> \<not> is_heading p2 \<and> is_heading h2 \<and> \<not> is_heading p3 \<longrightarrow>
        footer_scan [h1, p1, p2, h2, p3] = [[h1, p1, p2], [h2, p3]])"
proof (cases content)
  case Nil
  then show ?thesis by (simp add: footer_scan_def)
next
  case (Cons c cs)
  obtain G' cur' where r: "footer_scan_loop cs [] [c] = (G', cur')" by (cases "footer_scan_loop cs [] [c]")
  have "scan_inv [] [c]" by (simp add: scan_inv_def)
  from scan_loop_inv [OF this r] have inv: "scan_inv G' cur'" .
  from scan_loop_count [OF r] have ne: "cur' \<noteq> []" and len: "length G' = length (filter is_heading cs)"
    by simp_all
  have fs: "footer_scan content = G' @ [cur']"
    using Cons r ne by (simp add: footer_scan_def)
  have c1: "concat (footer_scan content) = content"
    using scan_loop_concat [OF r] fs Cons by simp
  have c2: "[] \<notin> set (footer_scan content)"
    using inv ne fs by (simp add: scan_inv_def)
  have c3: "\<forall>g \<in> set (footer_scan content). \<forall>c \<in> set (tl g). \<not> is_heading c"
    using inv fs by (simp add: scan_inv_def)
  have c4: "\<forall>g \<in> set (tl (footer_scan content)). is_heading (hd g)"
    using inv fs by (simp add: scan_inv_def)
  have c5: "length (footer_scan content)
       = (if content = [] then 0 else 1 + length (filter is_heading (tl content)))"
    using fs len Cons by simp
  have c6: "\<not> is_heading p1 \<and> \<not> is_heading p2 \<and> is_heading h2 \<and> \<not> is_heading p3 \<longrightarrow>
        footer_scan [h1, p1, p2, h2, p3] = [[h1, p1, p2], [h2, p3]]"
    by (simp add: footer_scan_def)
  from c1 c2 c3 c4 c5 c6 show ?thesis by blast
qed

theorem footer_scan_partition_witness:
  "footer_scan [text_item ''heading'' ''H1'', text_item ''paragraph'' ''P1'',
                text_item ''paragraph'' ''P2'', text_item ''heading'' ''H2'',
                text_item ''paragraph'' ''P3'']
   = [[text_item ''heading'' ''H1'', text_item ''paragraph'' ''P1'', text_item ''paragraph'' ''P2''],
      [text_item ''heading'' ''H2'', text_item ''paragraph'' ''P3'']]
   \<and> length (footer_scan [text_item ''paragraph'' ''P1'', text_item ''heading'' ''H1'',
                            text_item ''paragraph'' ''P2'']) = 2"
  using footer_scan_partition [of "[text_item ''paragraph'' ''P1'', text_item ''heading'' ''H1'',
                            text_item ''paragraph'' ''P2'']"]
     footer_scan_partition [of _ "text_item ''paragraph'' ''P1''" "text_item ''paragraph'' ''P2''"
        "text_item ''heading'' ''H2''" "text_item ''paragraph'' ''P3''" "text_item ''heading'' ''H1''"]
  by (simp add: text_item_def no_fields_def)


lemma footer_pad_eq:
  "footer_pad gs k = gs @ replicate (nat (k - int (length gs))) []"
proof (induction gs k rule: footer_pad.induct)
  case (1 gs k)
  show ?case
  proof (cases "int (length gs) < k")
    case True
    then have "nat (k - int (length gs)) = Suc (nat (k - int (length (gs @ [[]]))))" by simp
    with 1 True show ?thesis
      by (subst footer_pad.simps) simp
  next
    case False
    then show ?thesis by (subst footer_pad.simps) simp
  qed
qed

lemma collect_Inr:
  "collect rs = Inr ys \<Longrightarrow> length ys = length rs \<and> (\<forall>j < length rs. rs ! j = Inr (ys ! j))"
proof (induction rs arbitrary: ys rule: collect.induct)
  case 1
  then show ?case by simp
next
  case (2 e rs)
  then show ?case by simp
next
  case (3 x rs)
  then show ?case by (auto split: sum.splits simp: nth_Cons')
qed

lemma collect_append_Inr:
  "collect rs = Inr ys \<Longrightarrow> collect (rs @ replicate m (Inr x)) = Inr (ys @ replicate m x)"
proof (induction rs arbitrary: ys rule: collect.induct)
  case 1
  then show ?case by (induction m) auto
next
  case (2 e rs)
  then show ?case by simp
next
  case (3 x rs)
  then show ?case by (auto split: sum.splits)
qed

text \<open>
  C10. A footer section asks for \<open>k > 1\<close> columns, its scan yields \<open>g\<close> groups and
  their items convert without error to the column blocks \<open>bs\<close>. Then \<open>bs\<close> has one
  column for each group, in order, each holding the converted items of its group; the
  emitted columns block holds \<open>bs\<close> followed by \<open>k - g\<close> empty columns; that is
  exactly \<open>k\<close> columns when \<open>g < k\<close>, and exactly the \<open>g\<close> columns of the groups,
  none dropped or merged, when \<open>g \<ge> k\<close>.
\<close>

theorem footer_columns_padded:
  assumes cols: "l_columns (s_layout section) = Some k" and k: "1 < k"
    and bs: "footer_col_blocks (footer_scan (s_content section)) = Inr bs"
  shows "length bs = length (footer_scan (s_content section))
    \<and> (\<forall>j < length bs. \<exists>inner.
          collect (map convert_content_item (footer_scan (s_content section) ! j)) = Inr inner
          \<and> bs ! j = column inner None None None None None None None)
    \<and> convert_footer section
        = Inr (group [columns (bs @ replicate (nat (k - int (length bs))) empty_column)
                        (Some ''wide'')]
                 (py_or (s_background_color section)
                    (py_or (case background_of section of
                              BgObject b \<Rightarrow> bg_value b | BgString v \<Rightarrow> None)
                       (Some ''#333333'')))
                 None
                 (Some (with_side_padding
                          (get (s_padding section) [(''top'', ''60px''), (''bottom'', ''60px'')])))
                 None None (Some ''full'') ''constrained'')
    \<and> (int (length bs) < k \<longrightarrow>
          int (length (bs @ replicate (nat (k - int (length bs))) empty_column)) = k)
    \<and> (k \<le> int (length bs) \<longrightarrow>
          bs @ replicate (nat (k - int (length bs))) empty_column = bs)"
proof -
  let ?gs = "footer_scan (s_content section)"
  let ?f = "\<lambda>grp. case collect (map convert_content_item grp) of
                            Inl e \<Rightarrow> Inl e
                          | Inr inner \<Rightarrow> Inr (column inner None None None None None None None)"
  from bs have c: "collect (map ?f ?gs) = Inr bs" by (simp add: footer_col_blocks_def)
  from collect_Inr [OF c] have len: "length bs = length ?gs"
    and nth: "\<forall>j < length ?gs. ?f (?gs ! j) = Inr (bs ! j)" by simp_all
  have each: "\<forall>j < length bs. \<exists>inner.
          collect (map convert_content_item (?gs ! j)) = Inr inner
          \<and> bs ! j = column inner None None None None None None None"
  proof (intro allI impI)
    fix j assume "j < length bs"
    with nth len have "?f (?gs ! j) = Inr (bs ! j)" by simp
    then show "\<exists>inner. collect (map convert_content_item (?gs ! j)) = Inr inner
          \<and> bs ! j = column inner None None None None None None None"
      by (auto split: sum.splits)
  qed
  have "footer_col_blocks (footer_pad ?gs k)
        = collect (map ?f ?gs @ replicate (nat (k - int (length ?gs))) (Inr empty_column))"
    by (simp add: footer_col_blocks_def footer_pad_eq empty_column_def)
  also have "\<dots> = Inr (bs @ replicate (nat (k - int (length ?gs))) empty_column)"
    by (rule collect_append_Inr [OF c])
  finally have padded: "footer_col_blocks (footer_pad ?gs k)
        = Inr (bs @ replicate (nat (k - int (length bs))) empty_column)"
    by (simp add: len)
  have conv: "convert_footer section
        = Inr (group [columns (bs @ replicate (nat (k - int (length bs))) empty_column)
                        (Some ''wide'')]
                 (py_or (s_background_color section)
                    (py_or (case background_of section of
                              BgObject b \<Rightarrow> bg_value b | BgString v \<Rightarrow> None)
                       (Some ''#333333'')))
                 None
                 (Some (with_side_padding
                          (get (s_padding section) [(''top'', ''60px''), (''bottom'', ''60px'')])))
                 None None (Some ''full'') ''constrained'')"
    using cols k padded by (simp add: convert_footer_def Let_def get_def)
  from len each conv show ?thesis by simp
qed


theorem footer_columns_padded_witness:
  "convert_footer
     (no_section\<lparr>s_type := Some ''footer'', s_layout := \<lparr>l_columns = Some 3\<rparr>,
        s_content := [text_item ''heading'' ''H1'', text_item ''paragraph'' ''P1'',
                      text_item ''heading'' ''H2'']\<rparr>)
   = Inr (group [columns [column [heading ''H1'' 2 None None None,
                                  paragraph_block ''P1'' None None None]
                            None None None None None None None,
                          column [heading ''H2'' 2 None None None]
                            None None None None None None None,
                          empty_column]
                   (Some ''wide'')]
            (Some ''#333333'') None
            (Some [(''top'', ''60px''), (''bottom'', ''60px''),
                   (''left'', ''40px''), (''right'', ''40px'')])
            None None (Some ''full'') ''constrained'')"
proof -
  let ?sec = "no_section\<lparr>s_type := Some ''footer'', s_layout := \<lparr>l_columns = Some 3\<rparr>,
        s_content := [text_item ''heading'' ''H1'', text_item ''paragraph'' ''P1'',
                      text_item ''heading'' ''H2'']\<rparr>"
  have h1: "l_columns (s_layout ?sec) = Some 3" by (simp add: no_section_def)
  have h2: "(1::int) < 3" by simp
  have h3: "footer_col_blocks (footer_scan (s_content ?sec))
            = Inr [column [heading ''H1'' 2 None None None,
                           paragraph_block ''P1'' None None None]
                     None None None None None None None,
                   column [heading ''H2'' 2 None None None]
                     None None None None None None None]"
    by (simp add: no_section_def footer_scan_def footer_col_blocks_def text_item_def
          no_fields_def get_def)
  from footer_columns_padded [OF h1 h2 h3] show ?thesis
    by (simp add: no_section_def py_or_def truthy_def background_of_def get_def no_bg_def
          with_side_padding_def dict_get_def)
qed


section \<open>Alignment override\<close>

text \<open>
  C6, as stated: every item with the explicit \<open>align\<close> of \<open>left\<close> renders a class list
  with \<open>has-text-align-left\<close>. A buttons item, one of the three kinds the section
  alignment is propagated to, keeps its alignment in the \<open>layout\<close> attribute: the class
  list of its block is \<open>wp-block-buttons\<close> alone.
\<close>

theorem buttons_item_has_no_align_class:
  \<open>convert_content_item
     (apply_section_align (Item (no_fields\<lparr>i_type := Some ''buttons'', i_align := Some ''left''\<rparr>) [])
        (Some ''center''))
   = Inr (''<!-- wp:buttons {"layout":{"type":"flex","justifyContent":"left"}} -->\<newline>''
          @ ''<div class="wp-block-buttons">\<newline>\<newline></div>\<newline>''
          @ ''<!-- /wp:buttons -->'')\<close>
  by (simp add: apply_section_align_def no_fields_def truthy_def buttons_def attr_str_def
        dumps_str_def escape_ascii_def)

text \<open>
  C6, amended: for every section alignment (the default \<open>center\<close> among them), an item
  with the explicit \<open>align\<close> of \<open>left\<close> is left untouched by the propagation, whatever
  its kind; a heading or paragraph item is then rendered with the alignment \<open>left\<close>, and
  the class list of its block contains \<open>has-text-align-left\<close> and not
  \<open>has-text-align-center\<close>.
\<close>

theorem explicit_left_overrides_section_align:
  "i_align (flds c) = Some ''left'' \<longrightarrow>
     apply_section_align c section_align = c
     \<and> (i_type (flds c) = Some ''heading'' \<and> i_text (flds c) = Some t \<longrightarrow>
          convert_content_item (apply_section_align c section_align)
            = Inr (heading t (get (i_level (flds c)) 2) (i_color (flds c)) (i_font_size (flds c))
                     (Some ''left''))
          \<and> ''has-text-align-left'' \<in> set (heading_classes (i_color (flds c)) (Some ''left''))
          \<and> ''has-text-align-center'' \<notin> set (heading_classes (i_color (flds c)) (Some ''left'')))
     \<and> (i_type (flds c) = Some ''paragraph'' \<and> i_text (flds c) = Some t \<longrightarrow>
          convert_content_item (apply_section_align c section_align)
            = Inr (paragraph_block t (i_color (flds c)) (i_font_size (flds c)) (Some ''left''))
          \<and> ''has-text-align-left'' \<in> set (paragraph_classes (i_color (flds c)) (Some ''left''))
          \<and> ''has-text-align-center''
               \<notin> set (paragraph_classes (i_color (flds c)) (Some ''left'')))"
proof (intro impI)
  assume a: "i_align (flds c) = Some ''left''"
  then have same: "apply_section_align c section_align = c"
    by (simp add: apply_section_align_def truthy_def)
  obtain f cols where c: "c = Item f cols" by (cases c)
  show "apply_section_align c section_align = c
     \<and> (i_type (flds c) = Some ''heading'' \<and> i_text (flds c) = Some t \<longrightarrow>
          convert_content_item (apply_section_align c section_align)
            = Inr (heading t (get (i_level (flds c)) 2) (i_color (flds c)) (i_font_size (flds c))
                     (Some ''left''))
          \<and> ''has-text-align-left'' \<in> set (heading_classes (i_color (flds c)) (Some ''left''))
          \<and> ''has-text-align-center'' \<notin> set (heading_classes (i_color (flds c)) (Some ''left'')))
     \<and> (i_type (flds c) = Some ''paragraph'' \<and> i_text (flds c) = Some t \<longrightarrow>
          convert_content_item (apply_section_align c section_align)
            = Inr (paragraph_block t (i_color (flds c)) (i_font_size (flds c)) (Some ''left''))
          \<and> ''has-text-align-left'' \<in> set (paragraph_classes (i_color (flds c)) (Some ''left''))
          \<and> ''has-text-align-center''
               \<notin> set (paragraph_classes (i_color (flds c)) (Some ''left'')))"
    unfolding same using a
    by (simp add: c heading_classes_def paragraph_classes_def truthy_def)
qed

theorem explicit_left_overrides_section_align_witness:
  \<open>convert_content_item
     (apply_section_align
        (Item (no_fields\<lparr>i_type := Some ''heading'', i_text := Some ''T'',
                          i_align := Some ''left''\<rparr>) [])
        (Some ''center''))
   = Inr (''<!-- wp:heading {"textAlign":"left"} -->\<newline>''
          @ ''<h2 class="wp-block-heading has-text-align-left">T</h2>\<newline>''
          @ ''<!-- /wp:heading -->'')\<close>
  using explicit_left_overrides_section_align
    [of "Item (no_fields\<lparr>i_type := Some ''heading'', i_text := Some ''T'',
                          i_align := Some ''left''\<rparr>) []" "Some ''center''" "''T''"]
  by (simp add: no_fields_def get_def heading_def heading_classes_def truthy_def entry_def
        sub_def text_style_def build_css_def build_css_parts_def css_decl_def css_padding_def
        truthy_dict_def style_attr_def str_int_def str_nat.simps dumps_str_def escape_ascii_def)


section \<open>Determinism and identifiers\<close>

lemma uid_agree:
  "agree (6 + n) r1 r2 \<Longrightarrow> fst (uid p r1) = fst (uid p r2) \<and> agree n (snd (uid p r1)) (snd (uid p r2))"
  by (auto simp: uid_def agree_def)

lemma single_btn_agree:
  "agree (6 + n) r1 r2 \<Longrightarrow>
   fst (single_btn b r1) = fst (single_btn b r2)
   \<and> agree n (snd (single_btn b r1)) (snd (single_btn b r2))"
  using uid_agree [of n r1 r2 "''sb''"]
  by (auto simp: single_btn_def split: prod.splits)

lemma btn_blocks_agree:
  "agree (6 * length bs + n) r1 r2 \<Longrightarrow>
   fst (btn_blocks bs r1) = fst (btn_blocks bs r2)
   \<and> agree n (snd (btn_blocks bs r1)) (snd (btn_blocks bs r2))"
proof (induction bs arbitrary: r1 r2)
  case Nil
  then show ?case by simp
next
  case (Cons b bs)
  then have "agree (6 + (6 * length bs + n)) r1 r2" by (simp add: add.assoc)
  from single_btn_agree [OF this, of b]
  have 1: "fst (single_btn b r1) = fst (single_btn b r2)"
    and 2: "agree (6 * length bs + n) (snd (single_btn b r1)) (snd (single_btn b r2))" by simp_all
  from Cons.IH [OF 2] 1 show ?case by (auto split: prod.splits)
qed

text \<open>
  C9, as stated: with explicit identifiers the output does not depend on the random
  source. \<open>adv_btn\<close> takes an identifier for the wrapper only; the identifier of each
  button is always drawn (\<open>btn_uid = _uid("sb")\<close>), and no parameter can supply it.
  With the explicit \<open>unique_id\<close> \<open>_b1\<close> and one button, two random sources give two
  outputs.
\<close>

theorem adv_btn_counterexample:
  "fst (adv_btn [\<lparr>k_text = Some ''Go'', k_size = None, k_link = None, k_color = None,
                   k_background = None, k_border_radius = None\<rparr>] (Some ''_b1'') ''center''
          (\<lambda>i. 0))
   \<noteq> fst (adv_btn [\<lparr>k_text = Some ''Go'', k_size = None, k_link = None, k_color = None,
                     k_background = None, k_border_radius = None\<rparr>] (Some ''_b1'') ''center''
            (\<lambda>i. 1))"
  by (simp add: adv_btn_def uid_or_def truthy_def single_btn_def uid_def kattrs_def
        dumps_str_plain_def escape_plain_def entry_def get_def upt_rec)

text \<open>
  C9, amended. \<open>convert_layout\<close> takes no random source: \<open>converter.py\<close> draws
  nothing, and its output is a function of the document. In the native-extension dialect
  a builder that is given a non-empty \<open>unique_id\<close> draws nothing for its own
  identifier: \<open>kb_spacer\<close>, and \<open>adv_btn\<close> without buttons, return the same output for
  every random source and leave the source as it was. \<open>adv_btn\<close> draws six characters
  for each button: its output is the same for two random sources that agree on the first
  \<open>6 * n\<close> draws, \<open>n\<close> the number of buttons.
\<close>

theorem explicit_id_determinism:
  "truthy unique_id \<longrightarrow>
     kb_spacer height unique_id rnd = (fst (kb_spacer height unique_id rnd'), rnd)
     \<and> adv_btn [] unique_id align rnd = (fst (adv_btn [] unique_id align rnd'), rnd)
     \<and> (agree (6 * length buttons_data) rnd rnd' \<longrightarrow>
          fst (adv_btn buttons_data unique_id align rnd)
            = fst (adv_btn buttons_data unique_id align rnd'))"
proof (intro impI conjI)
  assume t: "truthy unique_id"
  show "kb_spacer height unique_id rnd = (fst (kb_spacer height unique_id rnd'), rnd)"
    using t by (simp add: kb_spacer_def uid_or_def)
  show "adv_btn [] unique_id align rnd = (fst (adv_btn [] unique_id align rnd'), rnd)"
    using t by (simp add: adv_btn_def uid_or_def)
  assume "agree (6 * length buttons_data) rnd rnd'"
  then have "agree (6 * length buttons_data + 0) rnd rnd'" by simp
  from btn_blocks_agree [OF this]
  have "fst (btn_blocks buttons_data rnd) = fst (btn_blocks buttons_data rnd')" by simp
  then show "fst (adv_btn buttons_data unique_id align rnd)
            = fst (adv_btn buttons_data unique_id align rnd')"
    using t by (auto simp: adv_btn_def uid_or_def split: prod.splits)
qed

theorem explicit_id_determinism_witness:
  \<open>kb_spacer 40 (Some ''_s1'') (\<lambda>i. 0)
     = (''<!-- wp:kadence/spacer {"uniqueID":"_s1","spacerHeight":40} /-->'', \<lambda>i. 0)
   \<and> fst (kb_spacer 40 (Some ''_s1'') (\<lambda>i. 7)) = fst (kb_spacer 40 (Some ''_s1'') (\<lambda>i. 0))\<close>
proof -
  have t: "truthy (Some ''_s1'')" by (simp add: truthy_def)
  have e: \<open>fst (kb_spacer 40 (Some ''_s1'') (\<lambda>i. 7))
           = ''<!-- wp:kadence/spacer {"uniqueID":"_s1","spacerHeight":40} /-->''\<close>
    by (simp add: kb_spacer_def uid_or_def truthy_def kattrs_def dumps_str_plain_def
          escape_plain_def str_int_def str_nat.simps)
  from explicit_id_determinism [of "Some ''_s1''" 40 "\<lambda>i. 0" "\<lambda>i. 7"] t
  have 1: "kb_spacer 40 (Some ''_s1'') (\<lambda>i. 0) = (fst (kb_spacer 40 (Some ''_s1'') (\<lambda>i. 7)), \<lambda>i. 0)"
    by blast
  from 1 e show ?thesis by simp
qed


section \<open>The layout compiler when the last section emits\<close>

lemma intersperse_Cons: "ys \<noteq> [] \<Longrightarrow> intersperse sep (x # ys) = x # sep # intersperse sep ys"
  by (cases ys) auto

text \<open>
  Where the claim C1 does hold: when the sections convert without error and the last
  section of the input emits a block, the loop appends the non-empty blocks in their
  order with one spacer between neighbours and none at the end.
\<close>

lemma layout_loop_interleaves:
  "collect (map convert_section ss) = Inr bs \<Longrightarrow> n = i + length ss \<Longrightarrow>
   (ss \<noteq> [] \<longrightarrow> last bs \<noteq> []) \<Longrightarrow>
   layout_loop n i ss blocks = Inr (blocks @ intersperse (spacer 30) (filter (\<lambda>b. b \<noteq> []) bs))"
proof (induction ss arbitrary: i bs blocks)
  case Nil
  then show ?case by simp
next
  case (Cons s ss)
  from Cons.prems(1) obtain b bs' where b: "convert_section s = Inr b"
    and bs': "collect (map convert_section ss) = Inr bs'" and bs: "bs = b # bs'"
    by (cases "convert_section s") (auto split: sum.splits)
  have len: "length bs' = length ss"
    using bs' collect_Inr [of "map convert_section ss" bs'] by simp
  have n: "n = Suc i + length ss" using Cons.prems(2) by simp
  show ?case
  proof (cases "ss = []")
    case True
    with bs' have "bs' = []" by simp
    with Cons.prems b bs True show ?thesis by simp
  next
    case False
    with len have ne: "bs' \<noteq> []" by auto
    with Cons.prems(3) bs have l: "last bs' \<noteq> []" by simp
    then have f: "filter (\<lambda>b. b \<noteq> []) bs' \<noteq> []"
      using ne by (metis (mono_tags, lifting) filter_empty_conv last_in_set)
    have lt: "int i < int n - 1" using Cons.prems(2) False by (cases ss) auto
    from Cons.IH [OF bs' n, of "if b \<noteq> [] then (blocks @ [b]) @ [spacer 30] else blocks"] l False
    have "layout_loop n (Suc i) ss (if b \<noteq> [] then (blocks @ [b]) @ [spacer 30] else blocks)
          = Inr ((if b \<noteq> [] then (blocks @ [b]) @ [spacer 30] else blocks)
                 @ intersperse (spacer 30) (filter (\<lambda>b. b \<noteq> []) bs'))" by simp
    with b bs lt f show ?thesis by (cases "b = []") (simp_all add: intersperse_Cons)
  qed
qed

end
